theory Spec2Isabelle
  imports Complex_Main
begin

section \<open>Path data of the planning module (modules/planning/common/path/path\_data.cc)\<close>

text \<open>
  The container \<open>PathData\<close> keeps one planned path in two forms, a Cartesian sequence
  (\<open>discretized_path_\<close>) and a Frenet sequence (\<open>frenet_path_\<close>), together with a
  borrowed pointer to the reference line both are measured against.

  Conventions of the embedding.
  \<^item> A C++ \<open>double\<close> is represented by the real number it denotes. An addition or a
    subtraction of the source is the exact operation followed by the rounding of its
    result to a \<open>double\<close>; the rounding is a parameter of the model (\<open>rnd\<close> below), as is
    \<open>std::hypot\<close>. \<open>std::fabs\<close> and the comparisons do not round and are the exact
    ones. Infinities and NaN are not values of the model, which describes the runs of
    the program in which none of them arises.
  \<^item> A protobuf message is a record of its fields, an unset field reading as its
    default \<open>0\<close>.
  \<^item> The pointer \<open>const ReferenceLine *\<close> is an \<open>option\<close>: \<open>None\<close> is \<open>nullptr\<close>.
    The reference line itself is a collaborator that lives outside this file and is
    represented by the three queries the code calls on it.
  \<^item> A member function takes the object as \<open>this\<close> and returns the updated object; an
    output parameter is passed in with its current value and handed back.
  \<^item> A failed \<open>DCHECK\<close>/\<open>CHECK\<close> and a dereferenced null pointer are error values.
  \<^item> The members \<open>discretized_path_\<close>, \<open>frenet_path_\<close> and \<open>reference_line_\<close> are
    written without the trailing underscore, which a HOL name cannot end in.
\<close>

subsection \<open>Floating-point arithmetic\<close>

text \<open>
  The arithmetic of the machine: \<open>rnd\<close> takes the exact result of an operation to the
  \<open>double\<close> the operation delivers, \<open>hypot\<close> is the library function \<open>std::hypot\<close>.
  Nothing is fixed about either here; what a property needs of them is among its
  hypotheses.
\<close>

record double_arith =
  rnd :: "real \<Rightarrow> real"
  hypot :: "real \<Rightarrow> real \<Rightarrow> real"

text \<open>The operators \<open>+\<close> and \<open>-\<close> of the source on two \<open>double\<close>s.\<close>

definition double_add :: "double_arith \<Rightarrow> real \<Rightarrow> real \<Rightarrow> real" where
  "double_add A a b = rnd A (a + b)"

definition double_sub :: "double_arith \<Rightarrow> real \<Rightarrow> real \<Rightarrow> real" where
  "double_sub A a b = rnd A (a - b)"

subsection \<open>Data\<close>

datatype Vec2d = Vec2d (vec_x: real) (vec_y: real)

text \<open>
  Modelled from the spec: \<open>Vec2d::operator-\<close> (modules/common/math/vec2d.h) is outside
  the given sources. The difference of two positions, taken by coordinate with the
  machine's subtraction, is what the "Euclidean distance between consecutive output
  positions" is measured on.
\<close>

definition vec_minus :: "double_arith \<Rightarrow> Vec2d \<Rightarrow> Vec2d \<Rightarrow> Vec2d" where
  "vec_minus A a b =
     Vec2d (double_sub A (vec_x a) (vec_x b)) (double_sub A (vec_y a) (vec_y b))"

text \<open>
  Modelled from the spec: \<open>Vec2d::Length\<close> (modules/common/math/vec2d.h) is outside the
  given sources. It is the Euclidean norm as \<open>std::hypot\<close> delivers it, which makes
  \<open>(last - current).Length()\<close> "the Euclidean distance between consecutive output
  positions".
\<close>

definition Length :: "double_arith \<Rightarrow> Vec2d \<Rightarrow> real" where
  "Length A v = hypot A (vec_x v) (vec_y v)"

record SLPoint =
  sl_s :: real
  sl_l :: real

record ReferencePoint =
  rp_heading :: real
  rp_kappa :: real
  rp_dkappa :: real

record PathPoint =
  pp_x :: real
  pp_y :: real
  pp_z :: real
  pp_theta :: real
  pp_kappa :: real
  pp_s :: real
  pp_dkappa :: real
  pp_ddkappa :: real

record FrenetFramePoint =
  ffp_s :: real
  ffp_l :: real
  ffp_dl :: real
  ffp_ddl :: real

text \<open>
  The reference line, by the queries \<open>path_data.cc\<close> makes: the two point conversions
  report failure by returning \<open>false\<close> (here \<open>None\<close>), the sampling query always answers.
\<close>

record ReferenceLine =
  get_point_in_cartesian_frame :: "SLPoint \<Rightarrow> Vec2d option"
  get_point_in_frenet_frame :: "Vec2d \<Rightarrow> SLPoint option"
  get_reference_point :: "real \<Rightarrow> ReferencePoint"

text \<open>
  The two static functions of \<open>SLAnalyticTransformation\<close> that the Frenet to Cartesian
  conversion calls are defined in modules/planning/math/sl\_analytic\_transformation.cc,
  outside the given sources. They are parameters of the model.
\<close>

record SLAnalyticTransformation =
  calculate_theta :: "real \<Rightarrow> real \<Rightarrow> real \<Rightarrow> real \<Rightarrow> real"
  calculate_kappa :: "real \<Rightarrow> real \<Rightarrow> real \<Rightarrow> real \<Rightarrow> real \<Rightarrow> real"

type_synonym DiscretizedPath = "PathPoint list"
type_synonym FrenetFramePath = "FrenetFramePoint list"

record PathData =
  discretized_path :: DiscretizedPath
  frenet_path :: FrenetFramePath
  reference_line :: "ReferenceLine option"

datatype error = NullPointerDereference | CheckFailed

subsection \<open>Helpers from other translation units\<close>

text \<open>
  Modelled from the spec: \<open>common::util::MakePathPoint\<close> (modules/common/util/util.h) is
  outside the given sources. It fills a fresh \<open>PathPoint\<close> with its seven arguments, in
  the order \<open>x, y, z, theta, kappa, dkappa, ddkappa\<close>; the arc length \<open>s\<close> is not among
  them and keeps its default. The spec: "Set speed and curvature-rate fields to zero".
\<close>

definition MakePathPoint ::
  "real \<Rightarrow> real \<Rightarrow> real \<Rightarrow> real \<Rightarrow> real \<Rightarrow> real \<Rightarrow> real \<Rightarrow> PathPoint" where
  "MakePathPoint x y z theta kappa dkappa ddkappa =
     \<lparr>pp_x = x, pp_y = y, pp_z = z, pp_theta = theta, pp_kappa = kappa, pp_s = 0,
      pp_dkappa = dkappa, pp_ddkappa = ddkappa\<rparr>"

text \<open>
  Modelled from the spec: \<open>DiscretizedPath::PathPointAt\<close> (discretized\_path.cc) is
  outside the given sources. It returns the stored sample at an index; an index past
  the end has no sample to return and is an error value here.
\<close>

definition PathPointAt :: "DiscretizedPath \<Rightarrow> nat \<Rightarrow> error + PathPoint" where
  "PathPointAt path i = (if i < length path then Inr (path ! i) else Inl CheckFailed)"

subsection \<open>Conversions between the two forms\<close>

text \<open>
  The loop of \<open>PathData::FrenetToCartesian\<close> (lines 137 to 168), the local vector
  \<open>path_points\<close> being the accumulator. \<open>Inr None\<close> is the early \<open>return false\<close>. The
  sum of line 165 is the machine's addition.
\<close>

fun FrenetToCartesian_loop ::
  "double_arith \<Rightarrow> SLAnalyticTransformation \<Rightarrow> ReferenceLine option \<Rightarrow>
   FrenetFramePoint list \<Rightarrow> PathPoint list \<Rightarrow> error + PathPoint list option" where
  "FrenetToCartesian_loop A T rl [] path_points = Inr (Some path_points)"
| "FrenetToCartesian_loop A T rl (frenet_point # rest) path_points =
     (case rl of
        None \<Rightarrow> Inl NullPointerDereference
      | Some line \<Rightarrow>
          (case get_point_in_cartesian_frame line
                  \<lparr>sl_s = ffp_s frenet_point, sl_l = ffp_l frenet_point\<rparr> of
             None \<Rightarrow> Inr None
           | Some cartesian_point \<Rightarrow>
               (let ref_point = get_reference_point line (ffp_s frenet_point);
                    theta = calculate_theta T (rp_heading ref_point) (rp_kappa ref_point)
                              (ffp_l frenet_point) (ffp_dl frenet_point);
                    kappa = calculate_kappa T (rp_kappa ref_point) (rp_dkappa ref_point)
                              (ffp_l frenet_point) (ffp_dl frenet_point)
                              (ffp_ddl frenet_point);
                    path_point = MakePathPoint (vec_x cartesian_point)
                                   (vec_y cartesian_point) 0 theta kappa 0 0;
                    path_point' =
                      (if path_points = [] then path_point\<lparr>pp_s := 0\<rparr>
                       else
                         (let last_v = Vec2d (pp_x (last path_points))
                                         (pp_y (last path_points));
                              current = Vec2d (pp_x path_point) (pp_y path_point);
                              distance = Length A (vec_minus A last_v current)
                          in path_point\<lparr>pp_s :=
                               double_add A (pp_s (last path_points)) distance\<rparr>))
                in FrenetToCartesian_loop A T rl rest (path_points @ [path_point']))))"

text \<open>
  \<open>PathData::FrenetToCartesian\<close>: the result pairs the returned \<open>bool\<close> with what
  \<open>*discretized_path\<close> holds afterwards; \<open>out\<close> is what it held before. The early
  \<open>return false\<close> leaves the loop before line 169 assigns the output.
\<close>

definition FrenetToCartesian ::
  "double_arith \<Rightarrow> SLAnalyticTransformation \<Rightarrow> PathData \<Rightarrow> FrenetFramePath \<Rightarrow>
   DiscretizedPath \<Rightarrow> error + (bool \<times> DiscretizedPath)" where
  "FrenetToCartesian A T this path out =
     (case FrenetToCartesian_loop A T (reference_line this) path [] of
        Inl e \<Rightarrow> Inl e
      | Inr None \<Rightarrow> Inr (False, out)
      | Inr (Some path_points) \<Rightarrow> Inr (True, path_points))"

text \<open>
  The loop of \<open>PathData::CartesianToFrenet\<close> (lines 179 to 191). A fresh
  \<open>FrenetFramePoint\<close> gets \<open>s\<close> and \<open>l\<close> only, \<open>dl\<close> and \<open>ddl\<close> keep their default.
\<close>

fun CartesianToFrenet_loop ::
  "ReferenceLine option \<Rightarrow> PathPoint list \<Rightarrow> FrenetFramePoint list \<Rightarrow>
   error + FrenetFramePoint list option" where
  "CartesianToFrenet_loop rl [] frenet_frame_points = Inr (Some frenet_frame_points)"
| "CartesianToFrenet_loop rl (path_point # rest) frenet_frame_points =
     (case rl of
        None \<Rightarrow> Inl NullPointerDereference
      | Some line \<Rightarrow>
          (case get_point_in_frenet_frame line
                  (Vec2d (pp_x path_point) (pp_y path_point)) of
             None \<Rightarrow> Inr None
           | Some sl_point \<Rightarrow>
               (let frenet_point = \<lparr>ffp_s = sl_s sl_point, ffp_l = sl_l sl_point,
                                     ffp_dl = 0, ffp_ddl = 0\<rparr>
                in CartesianToFrenet_loop rl rest (frenet_frame_points @ [frenet_point]))))"

text \<open>
  \<open>PathData::CartesianToFrenet\<close>, with the output parameter \<open>*frenet_path\<close> treated as in
  the other direction: line 192 assigns it, the early \<open>return false\<close> does not.
\<close>

definition CartesianToFrenet ::
  "PathData \<Rightarrow> DiscretizedPath \<Rightarrow> FrenetFramePath \<Rightarrow> error + (bool \<times> FrenetFramePath)" where
  "CartesianToFrenet this path out =
     (case CartesianToFrenet_loop (reference_line this) path [] of
        Inl e \<Rightarrow> Inl e
      | Inr None \<Rightarrow> Inr (False, out)
      | Inr (Some frenet_frame_points) \<Rightarrow> Inr (True, frenet_frame_points))"

subsection \<open>The container\<close>

text \<open>
  \<open>PathData::set_discretized_path\<close> and \<open>PathData::set_frenet_path\<close>: the result is the
  returned \<open>bool\<close> and the object afterwards. The member is assigned first; the
  conversion then reads it and writes the other member. The \<open>DCHECK_EQ\<close> of lines 51
  and 66 is the comparison of the two lengths.
\<close>

definition set_discretized_path :: "PathData \<Rightarrow> DiscretizedPath \<Rightarrow> error + (bool \<times> PathData)" where
  "set_discretized_path this path =
     (if reference_line this = None then Inr (False, this)
      else
        (let this1 = this\<lparr>discretized_path := path\<rparr> in
         case CartesianToFrenet this1 (discretized_path this1) (frenet_path this1) of
           Inl e \<Rightarrow> Inl e
         | Inr (ok, out) \<Rightarrow>
             (let this2 = this1\<lparr>frenet_path := out\<rparr> in
              if \<not> ok then Inr (False, this2)
              else if length (discretized_path this2) \<noteq> length (frenet_path this2)
                then Inl CheckFailed
              else Inr (True, this2))))"

definition set_frenet_path ::
  "double_arith \<Rightarrow> SLAnalyticTransformation \<Rightarrow> PathData \<Rightarrow> FrenetFramePath \<Rightarrow>
   error + (bool \<times> PathData)" where
  "set_frenet_path A T this path =
     (if reference_line this = None then Inr (False, this)
      else
        (let this1 = this\<lparr>frenet_path := path\<rparr> in
         case FrenetToCartesian A T this1 (frenet_path this1) (discretized_path this1) of
           Inl e \<Rightarrow> Inl e
         | Inr (ok, out) \<Rightarrow>
             (let this2 = this1\<lparr>discretized_path := out\<rparr> in
              if \<not> ok then Inr (False, this2)
              else if length (discretized_path this2) \<noteq> length (frenet_path this2)
                then Inl CheckFailed
              else Inr (True, this2))))"

definition Clear :: "PathData \<Rightarrow> PathData" where
  "Clear this = this\<lparr>discretized_path := [], frenet_path := [], reference_line := None\<rparr>"

definition set_reference_line :: "PathData \<Rightarrow> ReferenceLine option \<Rightarrow> PathData" where
  "set_reference_line this line = (Clear this)\<lparr>reference_line := line\<rparr>"

subsection \<open>Lookup by the arc length along the reference line\<close>

text \<open>
  The \<open>double\<close> that the literal \<open>1e-3\<close> of line 96 denotes: the binary64 value nearest
  to one thousandth, a little above it.
\<close>

definition kDistanceEpsilon :: real where
  "kDistanceEpsilon = 1152921504606847 / 2 ^ 60"

text \<open>\<open>std::numeric_limits<double>::max()\<close>, the largest finite binary64 value.\<close>

definition double_max :: real where
  "double_max = 2 ^ 1024 - 2 ^ 971"

text \<open>
  The distance of lines 99 and 100, \<open>std::fabs(ref_s - frenet_path_.points().at(i).s())\<close>:
  the machine's subtraction, then the absolute value.
\<close>

definition ref_s_distance :: "double_arith \<Rightarrow> real \<Rightarrow> FrenetFramePoint \<Rightarrow> real" where
  "ref_s_distance A ref_s p = \<bar>double_sub A ref_s (ffp_s p)\<bar>"

text \<open>
  The loop of \<open>PathData::get_path_point_with_ref_s\<close> (lines 98 to 109) over the samples
  from position \<open>i\<close> on. The result is the index whose Cartesian point is copied out:
  \<open>i\<close> at the early return inside the loop, \<open>index\<close> after the loop. The counter is a
  \<open>uint32_t\<close> in the source and a natural number here; the two agree on sequences of
  fewer than \<open>2 ^ 32\<close> samples, where the counter does not wrap.
\<close>

fun ref_s_loop ::
  "double_arith \<Rightarrow> FrenetFramePoint list \<Rightarrow> real \<Rightarrow> nat \<Rightarrow> nat \<Rightarrow> real \<Rightarrow> nat" where
  "ref_s_loop A [] ref_s i index shortest_distance = index"
| "ref_s_loop A (p # ps) ref_s i index shortest_distance =
     (let curr_distance = ref_s_distance A ref_s p in
      if curr_distance < kDistanceEpsilon then i
      else if curr_distance < shortest_distance
        then ref_s_loop A ps ref_s (i + 1) i curr_distance
      else ref_s_loop A ps ref_s (i + 1) index shortest_distance)"

text \<open>
  \<open>PathData::get_path_point_with_ref_s\<close>: the function returns \<open>true\<close> on every path
  that returns, so the result is the point written to \<open>*path_point\<close>. The two checks
  at its head are the \<open>DCHECK\<close>s of lines 91 and 93, which a release build compiles
  away (the one of line 92 concerns the output pointer, which is always valid here);
  the properties below are stated where both checks pass, so that they hold for
  either build.
\<close>

definition get_path_point_with_ref_s ::
  "double_arith \<Rightarrow> PathData \<Rightarrow> real \<Rightarrow> error + PathPoint" where
  "get_path_point_with_ref_s A this ref_s =
     (if reference_line this = None then Inl CheckFailed
      else if length (discretized_path this) \<noteq> length (frenet_path this) then Inl CheckFailed
      else PathPointAt (discretized_path this)
             (ref_s_loop A (frenet_path this) ref_s 0 0 double_max))"

subsection \<open>First minimum and first hit of a sequence\<close>

text \<open>
  For a sequence \<open>ps\<close> and a distance \<open>d\<close> of its elements: the least distance that
  occurs, the first index whose distance is at most a bound, the first index whose
  distance is the least one, and the first index whose distance is below a bound.
\<close>

fun min_of :: "('a \<Rightarrow> real) \<Rightarrow> 'a list \<Rightarrow> real" where
  "min_of d [] = 0"
| "min_of d [p] = d p"
| "min_of d (p # q # ps) = min (d p) (min_of d (q # ps))"

fun first_at_most :: "('a \<Rightarrow> real) \<Rightarrow> 'a list \<Rightarrow> real \<Rightarrow> nat" where
  "first_at_most d [] b = 0"
| "first_at_most d (p # ps) b = (if d p \<le> b then 0 else Suc (first_at_most d ps b))"

definition first_minimum :: "('a \<Rightarrow> real) \<Rightarrow> 'a list \<Rightarrow> nat" where
  "first_minimum d ps = first_at_most d ps (min_of d ps)"

fun first_below :: "('a \<Rightarrow> real) \<Rightarrow> 'a list \<Rightarrow> real \<Rightarrow> nat" where
  "first_below d [] b = 0"
| "first_below d (p # ps) b = (if d p < b then 0 else Suc (first_below d ps b))"

text \<open>
  Following the words of the specification, not the code: the index whose Frenet \<open>s\<close> is
  closest to \<open>ref_s\<close>, the first one where several are equally close.
\<close>

definition closest_index :: "FrenetFramePoint list \<Rightarrow> real \<Rightarrow> nat" where
  "closest_index ps ref_s = first_minimum (\<lambda>p. \<bar>ref_s - ffp_s p\<bar>) ps"

subsection \<open>Auxiliary notions for the statements\<close>

text \<open>The \<open>bool\<close> a member function returned, if it returned.\<close>

definition returned :: "error + (bool \<times> 'a) \<Rightarrow> bool option" where
  "returned r = (case r of Inl e \<Rightarrow> None | Inr (ok, after) \<Rightarrow> Some ok)"




subsection \<open>Concrete collaborators for the examples\<close>

text \<open>
  The arithmetic of the examples rounds nothing. The examples are chosen so that
  binary64 arithmetic rounds nothing on them either: their numbers are \<open>double\<close>s whose
  sums, differences and distances are \<open>double\<close>s again.
\<close>

definition exact_arith :: double_arith where
  "exact_arith = \<lparr>rnd = (\<lambda>x. x), hypot = (\<lambda>a b. sqrt (a\<^sup>2 + b\<^sup>2))\<rparr>"

text \<open>
  A straight reference line along the x axis from \<open>0\<close> to \<open>10\<close>: Frenet and Cartesian
  coordinates coincide on it, and both point conversions fail off its extent.
\<close>

definition x_axis_line :: ReferenceLine where
  "x_axis_line =
     \<lparr>get_point_in_cartesian_frame =
        (\<lambda>sl. if 0 \<le> sl_s sl \<and> sl_s sl \<le> 10 then Some (Vec2d (sl_s sl) (sl_l sl)) else None),
      get_point_in_frenet_frame =
        (\<lambda>v. if 0 \<le> vec_x v \<and> vec_x v \<le> 10 then Some \<lparr>sl_s = vec_x v, sl_l = vec_y v\<rparr>
              else None),
      get_reference_point = (\<lambda>s. \<lparr>rp_heading = 0, rp_kappa = 0, rp_dkappa = 0\<rparr>)\<rparr>"

definition flat_transformation :: SLAnalyticTransformation where
  "flat_transformation =
     \<lparr>calculate_theta = (\<lambda>theta_ref kappa_ref l dl. theta_ref + dl),
      calculate_kappa = (\<lambda>kappa_ref dkappa_ref l dl ddl. kappa_ref + ddl)\<rparr>"

definition cart :: "real \<Rightarrow> real \<Rightarrow> PathPoint" where
  "cart x y = MakePathPoint x y 0 0 0 0 0"

definition fren :: "real \<Rightarrow> real \<Rightarrow> FrenetFramePoint" where
  "fren s l = \<lparr>ffp_s = s, ffp_l = l, ffp_dl = 0, ffp_ddl = 0\<rparr>"

definition bound_data :: PathData where
  "bound_data =
     \<lparr>discretized_path = [cart 1 0, cart 2 0], frenet_path = [fren 1 0, fren 2 0],
      reference_line = Some x_axis_line\<rparr>"

definition unbound_data :: PathData where
  "unbound_data =
     \<lparr>discretized_path = [cart 1 0], frenet_path = [fren 1 0], reference_line = None\<rparr>"

text \<open>Inputs with a sample beyond the end of the line, at \<open>11\<close>.\<close>

definition off_line_cartesian :: DiscretizedPath where
  "off_line_cartesian = [cart 3 0, cart 11 0]"

definition off_line_frenet :: FrenetFramePath where
  "off_line_frenet = [fren 3 0, fren 11 0]"

text \<open>Three Frenet samples whose Cartesian images are \<open>3\<close> and \<open>4\<close> apart.\<close>

definition frenet_345 :: FrenetFramePath where
  "frenet_345 = [fren 0 0, fren 3 0, fren 3 4]"

text \<open>The \<open>double\<close>s that the literals \<open>0.5005\<close> and \<open>1.2\<close> denote.\<close>

definition literal_0_5005 :: real where
  "literal_0_5005 = 2254051613498933 / 2 ^ 52"

definition literal_1_2 :: real where
  "literal_1_2 = 5404319552844595 / 2 ^ 52"

text \<open>
  The lookup example of the specification: Frenet \<open>s\<close> values \<open>0, 0.5, 1.2\<close>, to be
  queried at \<open>0.5005\<close>. The difference of the query and the second sample is a
  \<open>double\<close>, the two being less than a factor of two apart.
\<close>

definition spec_example :: PathData where
  "spec_example =
     \<lparr>discretized_path = [cart 0 0, cart (1 / 2) 0, cart literal_1_2 0],
      frenet_path = [fren 0 0, fren (1 / 2) 0, fren literal_1_2 0],
      reference_line = Some x_axis_line\<rparr>"

text \<open>
  Two samples less than \<open>kDistanceEpsilon\<close> apart, to be queried at the second one's
  Frenet \<open>s\<close>. All numbers are binary fractions, exact in a \<open>double\<close>.
\<close>

definition early_example :: PathData where
  "early_example =
     \<lparr>discretized_path = [cart 0 0, cart (1 / 2048) 0],
      frenet_path = [fren 0 0, fren (1 / 2048) 0],
      reference_line = Some x_axis_line\<rparr>"

text \<open>
  Two inputs on which binary64 arithmetic does round. The \<open>double\<close>s that the literals
  \<open>0.1\<close> and \<open>0.2\<close> denote have an exact sum that is no \<open>double\<close>; the machine's sum is
  the \<open>double\<close> printed as \<open>0.30000000000000004\<close>.
\<close>

definition literal_0_1 :: real where
  "literal_0_1 = 3602879701896397 / 2 ^ 55"

definition literal_0_2 :: real where
  "literal_0_2 = 3602879701896397 / 2 ^ 54"

definition sum_0_1_0_2 :: real where
  "sum_0_1_0_2 = 1351079888211149 / 2 ^ 52"

definition frenet_rounding :: FrenetFramePath where
  "frenet_rounding = [fren 0 0, fren literal_0_1 0, fren literal_0_1 literal_0_2]"

text \<open>
  A first sample so close to zero that subtracting it from \<open>kDistanceEpsilon\<close> rounds
  back to \<open>kDistanceEpsilon\<close>, and a second sample at \<open>kDistanceEpsilon\<close>.
\<close>

definition rounding_example :: PathData where
  "rounding_example =
     \<lparr>discretized_path = [cart 0 0, cart 1 0],
      frenet_path = [fren (1 / 2 ^ 65) 0, fren kDistanceEpsilon 0],
      reference_line = Some x_axis_line\<rparr>"

section \<open>Properties\<close>

subsection \<open>The conversion loops\<close>

lemma CartesianToFrenet_loop_length:
  "CartesianToFrenet_loop rl path acc = Inr (Some out) \<Longrightarrow>
   length out = length acc + length path"
  by (induction path arbitrary: acc) (auto split: option.splits)

lemma FrenetToCartesian_loop_length:
  "FrenetToCartesian_loop A T rl path acc = Inr (Some out) \<Longrightarrow>
   length out = length acc + length path"
  by (induction path arbitrary: acc) (auto split: option.splits simp: Let_def)

lemma FrenetToCartesian_loop_fails:
  "\<exists>p \<in> set path. get_point_in_cartesian_frame line \<lparr>sl_s = ffp_s p, sl_l = ffp_l p\<rparr> = None \<Longrightarrow>
   FrenetToCartesian_loop A T (Some line) path acc = Inr None"
  by (induction path arbitrary: acc) (auto split: option.splits simp: Let_def)

lemma CartesianToFrenet_loop_fails:
  "\<exists>p \<in> set path. get_point_in_frenet_frame line (Vec2d (pp_x p) (pp_y p)) = None \<Longrightarrow>
   CartesianToFrenet_loop (Some line) path acc = Inr None"
  by (induction path arbitrary: acc) (auto split: option.splits simp: Let_def)

text \<open>With a reference line bound, neither loop dereferences a null pointer.\<close>

lemma FrenetToCartesian_loop_bound_no_error:
  "FrenetToCartesian_loop A T (Some line) path acc \<noteq> Inl e"
  by (induction path arbitrary: acc) (auto split: option.splits simp: Let_def)

lemma CartesianToFrenet_loop_bound_no_error:
  "CartesianToFrenet_loop (Some line) path acc \<noteq> Inl e"
  by (induction path arbitrary: acc) (auto split: option.splits simp: Let_def)

text \<open>
  The set operations always return: the null check comes before the conversion, and the
  \<open>DCHECK_EQ\<close> after a successful conversion compares two equal lengths.
\<close>

lemma set_discretized_path_no_error: "set_discretized_path this path \<noteq> Inl e"
  using CartesianToFrenet_loop_bound_no_error CartesianToFrenet_loop_length[where acc="[]"]
  by (auto simp: set_discretized_path_def CartesianToFrenet_def Let_def
      split: sum.splits option.splits)

lemma set_frenet_path_no_error: "set_frenet_path A T this path \<noteq> Inl e"
  using FrenetToCartesian_loop_bound_no_error FrenetToCartesian_loop_length[where acc="[]"]
  by (auto simp: set_frenet_path_def FrenetToCartesian_def Let_def
      split: sum.splits option.splits)

subsection \<open>Facts about the examples\<close>

lemma bound_data_line: "reference_line bound_data = Some x_axis_line"
  by (simp add: bound_data_def)

lemma off_line_frenet_fails:
  "\<exists>p \<in> set off_line_frenet.
     get_point_in_cartesian_frame x_axis_line \<lparr>sl_s = ffp_s p, sl_l = ffp_l p\<rparr> = None"
  by (simp add: off_line_frenet_def fren_def x_axis_line_def)

lemma off_line_cartesian_fails:
  "\<exists>p \<in> set off_line_cartesian.
     get_point_in_frenet_frame x_axis_line (Vec2d (pp_x p) (pp_y p)) = None"
  by (simp add: off_line_cartesian_def cart_def MakePathPoint_def x_axis_line_def)

lemma set_discretized_path_off_line:
  "set_discretized_path bound_data off_line_cartesian =
     Inr (False, bound_data\<lparr>discretized_path := off_line_cartesian\<rparr>)"
  by (simp add: set_discretized_path_def CartesianToFrenet_def bound_data_def
      off_line_cartesian_def cart_def MakePathPoint_def x_axis_line_def)

lemma set_frenet_path_off_line:
  "set_frenet_path exact_arith flat_transformation bound_data off_line_frenet =
     Inr (False, bound_data\<lparr>frenet_path := off_line_frenet\<rparr>)"
  by (simp add: set_frenet_path_def FrenetToCartesian_def bound_data_def
      off_line_frenet_def fren_def cart_def MakePathPoint_def x_axis_line_def Let_def
      flat_transformation_def)

lemma frenet_345_converted:
  "FrenetToCartesian exact_arith flat_transformation bound_data frenet_345 [] =
     Inr (True, [cart 0 0, (cart 3 0)\<lparr>pp_s := 3\<rparr>, (cart 3 4)\<lparr>pp_s := 7\<rparr>])"
  by (simp add: FrenetToCartesian_def bound_data_def frenet_345_def fren_def cart_def
      x_axis_line_def flat_transformation_def MakePathPoint_def Length_def vec_minus_def
      exact_arith_def double_add_def double_sub_def)

lemma on_line_converted:
  "CartesianToFrenet bound_data [cart 1 2, cart 4 (- 1)] [] =
     Inr (True, [fren 1 2, fren 4 (- 1)])"
  by (simp add: CartesianToFrenet_def bound_data_def cart_def fren_def MakePathPoint_def
      x_axis_line_def)

subsection \<open>Setting a sequence that cannot be converted\<close>

text \<open>
  C1. The claim: when \<open>set_discretized_path\<close> or \<open>set_frenet_path\<close> returns \<open>false\<close>,
  both stored sequences are what they were before the call. It fails on a bound
  container given a sequence with a sample off the line: the call returns \<open>false\<close> and
  the sequence that was passed in is stored.
\<close>

theorem failed_set_not_rolled_back:
  "set_discretized_path bound_data off_line_cartesian =
     Inr (False, bound_data\<lparr>discretized_path := off_line_cartesian\<rparr>) \<and>
   discretized_path (bound_data\<lparr>discretized_path := off_line_cartesian\<rparr>) \<noteq>
     discretized_path bound_data \<and>
   set_frenet_path exact_arith flat_transformation bound_data off_line_frenet =
     Inr (False, bound_data\<lparr>frenet_path := off_line_frenet\<rparr>) \<and>
   frenet_path (bound_data\<lparr>frenet_path := off_line_frenet\<rparr>) \<noteq> frenet_path bound_data"
  by (simp add: set_discretized_path_off_line set_frenet_path_off_line)
     (simp add: bound_data_def off_line_cartesian_def off_line_frenet_def cart_def fren_def
        MakePathPoint_def)

text \<open>
  C1, as amended. When \<open>set_discretized_path\<close> returns \<open>false\<close>, the stored Frenet
  sequence and the stored pointer are what they were before the call, and the stored
  Cartesian sequence is its prior value if no reference line was bound and the rejected
  input otherwise; likewise for \<open>set_frenet_path\<close> with the two sequences exchanged.
\<close>

theorem failed_set_effect:
  "(set_discretized_path this cpath = Inr (False, this') \<longrightarrow>
      frenet_path this' = frenet_path this \<and> reference_line this' = reference_line this \<and>
      discretized_path this' =
        (if reference_line this = None then discretized_path this else cpath)) \<and>
   (set_frenet_path A T this fpath = Inr (False, this'') \<longrightarrow>
      discretized_path this'' = discretized_path this \<and>
      reference_line this'' = reference_line this \<and>
      frenet_path this'' = (if reference_line this = None then frenet_path this else fpath))"
  by (auto simp: set_discretized_path_def set_frenet_path_def FrenetToCartesian_def
      CartesianToFrenet_def Let_def split: if_splits sum.splits option.splits)

theorem failed_set_effect_witness:
  "set_discretized_path bound_data off_line_cartesian =
     Inr (False, bound_data\<lparr>discretized_path := off_line_cartesian\<rparr>) \<and>
   frenet_path (bound_data\<lparr>discretized_path := off_line_cartesian\<rparr>) = frenet_path bound_data \<and>
   discretized_path (bound_data\<lparr>discretized_path := off_line_cartesian\<rparr>) = off_line_cartesian \<and>
   set_frenet_path exact_arith flat_transformation bound_data off_line_frenet =
     Inr (False, bound_data\<lparr>frenet_path := off_line_frenet\<rparr>) \<and>
   discretized_path (bound_data\<lparr>frenet_path := off_line_frenet\<rparr>) = discretized_path bound_data \<and>
   frenet_path (bound_data\<lparr>frenet_path := off_line_frenet\<rparr>) = off_line_frenet"
  using failed_set_effect[of bound_data off_line_cartesian
      "bound_data\<lparr>discretized_path := off_line_cartesian\<rparr>" exact_arith flat_transformation
      off_line_frenet "bound_data\<lparr>frenet_path := off_line_frenet\<rparr>"]
    set_discretized_path_off_line set_frenet_path_off_line
  by simp

text \<open>
  C9. On a container with a reference line bound, \<open>set_discretized_path\<close> with a sequence
  one of whose points the line cannot project returns \<open>false\<close> and leaves the object
  with the rejected sequence as its Cartesian sequence and everything else as before;
  \<open>set_frenet_path\<close> with a sequence one of whose points the line cannot map does the
  same to the Frenet sequence. The member is assigned before the conversion is tried.
\<close>

theorem failed_set_keeps_rejected_input:
  assumes "reference_line this = Some line"
  shows "((\<exists>p \<in> set cpath. get_point_in_frenet_frame line (Vec2d (pp_x p) (pp_y p)) = None)
            \<longrightarrow> set_discretized_path this cpath =
                  Inr (False, this\<lparr>discretized_path := cpath\<rparr>)) \<and>
         ((\<exists>p \<in> set fpath.
              get_point_in_cartesian_frame line \<lparr>sl_s = ffp_s p, sl_l = ffp_l p\<rparr> = None)
            \<longrightarrow> set_frenet_path A T this fpath = Inr (False, this\<lparr>frenet_path := fpath\<rparr>))"
  using assms FrenetToCartesian_loop_fails[of fpath line A T "[]"]
    CartesianToFrenet_loop_fails[of cpath line "[]"]
  by (simp add: set_discretized_path_def set_frenet_path_def FrenetToCartesian_def
      CartesianToFrenet_def)

theorem failed_set_keeps_rejected_input_witness:
  "reference_line bound_data = Some x_axis_line \<and>
   set_discretized_path bound_data off_line_cartesian =
     Inr (False, bound_data\<lparr>discretized_path := off_line_cartesian\<rparr>) \<and>
   set_frenet_path exact_arith flat_transformation bound_data off_line_frenet =
     Inr (False, bound_data\<lparr>frenet_path := off_line_frenet\<rparr>)"
  using failed_set_keeps_rejected_input[OF bound_data_line,
      of off_line_cartesian off_line_frenet exact_arith flat_transformation]
    off_line_frenet_fails off_line_cartesian_fails bound_data_line
  by simp

subsection \<open>Setting a sequence with no reference line bound\<close>

text \<open>
  C6. With the stored pointer null, \<open>set_discretized_path\<close> and \<open>set_frenet_path\<close> return
  \<open>false\<close>, whatever sequence they are given.
\<close>

theorem set_without_reference_line_fails:
  assumes "reference_line this = None"
  shows "returned (set_discretized_path this cpath) = Some False \<and>
         returned (set_frenet_path A T this fpath) = Some False"
  using assms by (simp add: returned_def set_discretized_path_def set_frenet_path_def)

theorem set_without_reference_line_fails_witness:
  "reference_line unbound_data = None \<and>
   returned (set_discretized_path unbound_data [cart 2 0]) = Some False \<and>
   returned (set_frenet_path exact_arith flat_transformation unbound_data [fren 2 0]) = Some False"
proof -
  have h: "reference_line unbound_data = None" by (simp add: unbound_data_def)
  show ?thesis
    using h set_without_reference_line_fails[OF h, of "[cart 2 0]" exact_arith flat_transformation
        "[fren 2 0]"]
    by simp
qed

text \<open>
  C10. With the stored pointer null, \<open>set_discretized_path\<close> and \<open>set_frenet_path\<close> return
  \<open>false\<close> and the object afterwards is the object before: both sequences and the
  pointer are untouched, the null check being the first statement of either function.
\<close>

theorem set_without_reference_line_unchanged:
  assumes "reference_line this = None"
  shows "set_discretized_path this cpath = Inr (False, this) \<and>
         set_frenet_path A T this fpath = Inr (False, this)"
  using assms by (simp add: set_discretized_path_def set_frenet_path_def)

theorem set_without_reference_line_unchanged_witness:
  "reference_line unbound_data = None \<and>
   set_discretized_path unbound_data [cart 2 0] = Inr (False, unbound_data) \<and>
   set_frenet_path exact_arith flat_transformation unbound_data [fren 2 0] = Inr (False, unbound_data)"
proof -
  have h: "reference_line unbound_data = None" by (simp add: unbound_data_def)
  show ?thesis
    using h set_without_reference_line_unchanged[OF h, of "[cart 2 0]" exact_arith flat_transformation
        "[fren 2 0]"]
    by simp
qed

subsection \<open>Binding a reference line\<close>

text \<open>
  C7. Binding a reference line clears the container whatever it held: after
  \<open>set_reference_line\<close> both stored sequences are empty and the stored pointer is the
  argument, the null pointer included.
\<close>

theorem set_reference_line_clears:
  "discretized_path (set_reference_line this line) = [] \<and>
   frenet_path (set_reference_line this line) = [] \<and>
   reference_line (set_reference_line this line) = line"
  by (simp add: set_reference_line_def Clear_def)

subsection \<open>Failure and length of the conversions\<close>

text \<open>
  C3. Both conversions fail as a whole: with a reference line bound, if the line's query
  fails for some point of the input then \<open>FrenetToCartesian\<close> (and likewise
  \<open>CartesianToFrenet\<close>) returns \<open>false\<close> and its output parameter holds what it held
  before the call, so that no sequence of any length, truncated or not, is written.
\<close>

theorem conversion_failure_writes_nothing:
  assumes "reference_line this = Some line"
  shows "((\<exists>p \<in> set fpath.
              get_point_in_cartesian_frame line \<lparr>sl_s = ffp_s p, sl_l = ffp_l p\<rparr> = None)
            \<longrightarrow> FrenetToCartesian A T this fpath cout = Inr (False, cout)) \<and>
         ((\<exists>p \<in> set cpath. get_point_in_frenet_frame line (Vec2d (pp_x p) (pp_y p)) = None)
            \<longrightarrow> CartesianToFrenet this cpath fout = Inr (False, fout))"
  using assms FrenetToCartesian_loop_fails[of fpath line A T "[]"]
    CartesianToFrenet_loop_fails[of cpath line "[]"]
  by (simp add: FrenetToCartesian_def CartesianToFrenet_def)

theorem conversion_failure_writes_nothing_witness:
  "reference_line bound_data = Some x_axis_line \<and>
   FrenetToCartesian exact_arith flat_transformation bound_data off_line_frenet [cart 5 0] =
     Inr (False, [cart 5 0]) \<and>
   CartesianToFrenet bound_data off_line_cartesian [fren 5 0] = Inr (False, [fren 5 0])"
  using conversion_failure_writes_nothing[OF bound_data_line,
      of off_line_frenet exact_arith flat_transformation "[cart 5 0]" off_line_cartesian "[fren 5 0]"]
    off_line_frenet_fails off_line_cartesian_fails bound_data_line
  by simp

text \<open>
  C5. Both conversions preserve the length of the sequence: when \<open>FrenetToCartesian\<close>
  returns \<open>true\<close> its output has as many points as the Frenet input, when
  \<open>CartesianToFrenet\<close> returns \<open>true\<close> its output has as many points as the Cartesian
  input, and either conversion turns the empty input into the empty output.
\<close>

theorem conversions_preserve_length:
  "(FrenetToCartesian A T this fpath cout = Inr (True, cout') \<longrightarrow> length cout' = length fpath) \<and>
   (CartesianToFrenet this cpath fout = Inr (True, fout') \<longrightarrow> length fout' = length cpath) \<and>
   FrenetToCartesian A T this [] cout = Inr (True, []) \<and>
   CartesianToFrenet this [] fout = Inr (True, [])"
  using FrenetToCartesian_loop_length[of A T "reference_line this" fpath "[]" cout']
    CartesianToFrenet_loop_length[of "reference_line this" cpath "[]" fout']
  by (auto simp: FrenetToCartesian_def CartesianToFrenet_def split: sum.splits option.splits)

theorem conversions_preserve_length_witness:
  "FrenetToCartesian exact_arith flat_transformation bound_data frenet_345 [] =
     Inr (True, [cart 0 0, (cart 3 0)\<lparr>pp_s := 3\<rparr>, (cart 3 4)\<lparr>pp_s := 7\<rparr>]) \<and>
   length [cart 0 0, (cart 3 0)\<lparr>pp_s := 3\<rparr>, (cart 3 4)\<lparr>pp_s := 7\<rparr>] = length frenet_345 \<and>
   CartesianToFrenet bound_data [cart 1 2, cart 4 (- 1)] [] =
     Inr (True, [fren 1 2, fren 4 (- 1)]) \<and>
   length [fren 1 2, fren 4 (- 1)] = length [cart 1 2, cart 4 (- 1)]"
  using conversions_preserve_length[of exact_arith flat_transformation bound_data frenet_345 "[]"
      "[cart 0 0, (cart 3 0)\<lparr>pp_s := 3\<rparr>, (cart 3 4)\<lparr>pp_s := 7\<rparr>]"
      "[cart 1 2, cart 4 (- 1)]" "[]" "[fren 1 2, fren 4 (- 1)]"]
    frenet_345_converted on_line_converted
  by simp

subsection \<open>The points the Cartesian to Frenet conversion produces\<close>

lemma CartesianToFrenet_loop_prefix:
  "CartesianToFrenet_loop rl path acc = Inr (Some out) \<Longrightarrow> take (length acc) out = acc"
proof (induction path arbitrary: acc)
  case Nil
  then show ?case by simp
next
  case (Cons p path)
  from Cons.prems obtain fp where
    "CartesianToFrenet_loop rl path (acc @ [fp]) = Inr (Some out)"
    by (auto split: option.splits)
  from Cons.IH[OF this]
  have "take (length acc) (take (length (acc @ [fp])) out) = take (length acc) (acc @ [fp])"
    by simp
  then show ?case by simp
qed

lemma CartesianToFrenet_loop_points:
  "CartesianToFrenet_loop rl path acc = Inr (Some out) \<Longrightarrow> i < length path \<Longrightarrow>
   \<exists>line sl. rl = Some line \<and>
     get_point_in_frenet_frame line (Vec2d (pp_x (path ! i)) (pp_y (path ! i))) = Some sl \<and>
     out ! (length acc + i) = \<lparr>ffp_s = sl_s sl, ffp_l = sl_l sl, ffp_dl = 0, ffp_ddl = 0\<rparr>"
proof (induction path arbitrary: acc i)
  case Nil
  then show ?case by simp
next
  case (Cons p path)
  from Cons.prems(1) obtain line sl where rl: "rl = Some line"
    and sl: "get_point_in_frenet_frame line (Vec2d (pp_x p) (pp_y p)) = Some sl"
    by (auto split: option.splits)
  let ?fp = "\<lparr>ffp_s = sl_s sl, ffp_l = sl_l sl, ffp_dl = 0, ffp_ddl = 0\<rparr>"
  have step: "CartesianToFrenet_loop rl path (acc @ [?fp]) = Inr (Some out)"
    using Cons.prems(1) by (simp add: rl sl)
  show ?case
  proof (cases i)
    case 0
    have "take (length (acc @ [?fp])) out = acc @ [?fp]"
      using step by (rule CartesianToFrenet_loop_prefix)
    then have "out ! length acc = ?fp"
      by (metis length_append_singleton lessI nth_append_length nth_take)
    then show ?thesis using 0 rl sl by simp
  next
    case (Suc j)
    then have "j < length path" using Cons.prems(2) by simp
    from Cons.IH[OF step this] show ?thesis using Suc by simp
  qed
qed

text \<open>
  C8. When \<open>CartesianToFrenet\<close> returns \<open>true\<close>, the output has one Frenet point for each
  input point, and the point at each position carries the \<open>s\<close> and \<open>l\<close> that the
  reference line's projection of the input position gave, with \<open>dl\<close> and \<open>ddl\<close> zero.
\<close>

theorem CartesianToFrenet_points:
  assumes "CartesianToFrenet this path out = Inr (True, out')"
  shows "length out' = length path \<and>
         (\<forall>i < length path. \<exists>line sl.
            reference_line this = Some line \<and>
            get_point_in_frenet_frame line (Vec2d (pp_x (path ! i)) (pp_y (path ! i))) = Some sl \<and>
            ffp_s (out' ! i) = sl_s sl \<and> ffp_l (out' ! i) = sl_l sl \<and>
            ffp_dl (out' ! i) = 0 \<and> ffp_ddl (out' ! i) = 0)"
proof -
  from assms have loop: "CartesianToFrenet_loop (reference_line this) path [] = Inr (Some out')"
    by (auto simp: CartesianToFrenet_def split: sum.splits option.splits)
  have "length out' = length path"
    using CartesianToFrenet_loop_length[OF loop] by simp
  moreover have "\<exists>line sl.
            reference_line this = Some line \<and>
            get_point_in_frenet_frame line (Vec2d (pp_x (path ! i)) (pp_y (path ! i))) = Some sl \<and>
            ffp_s (out' ! i) = sl_s sl \<and> ffp_l (out' ! i) = sl_l sl \<and>
            ffp_dl (out' ! i) = 0 \<and> ffp_ddl (out' ! i) = 0" if "i < length path" for i
    using CartesianToFrenet_loop_points[OF loop that] by auto
  ultimately show ?thesis by blast
qed

theorem CartesianToFrenet_points_witness:
  "CartesianToFrenet bound_data [cart 1 2, cart 4 (- 1)] [] =
     Inr (True, [fren 1 2, fren 4 (- 1)]) \<and>
   get_point_in_frenet_frame x_axis_line (Vec2d 4 (- 1)) = Some \<lparr>sl_s = 4, sl_l = - 1\<rparr> \<and>
   ffp_s ([fren 1 2, fren 4 (- 1)] ! 1) = 4 \<and> ffp_l ([fren 1 2, fren 4 (- 1)] ! 1) = - 1 \<and>
   ffp_dl ([fren 1 2, fren 4 (- 1)] ! 1) = 0 \<and> ffp_ddl ([fren 1 2, fren 4 (- 1)] ! 1) = 0"
  using CartesianToFrenet_points[OF on_line_converted] on_line_converted
  by (simp add: fren_def x_axis_line_def)

subsection \<open>Arc length of the Frenet to Cartesian conversion\<close>









subsection \<open>The index the lookup by reference arc length selects\<close>

lemma min_of_Cons:
  "min_of d (p # ps) = (if ps = [] then d p else min (d p) (min_of d ps))"
  by (cases ps) simp_all

lemma min_of_attained: "ps \<noteq> [] \<Longrightarrow> \<exists>p \<in> set ps. min_of d ps = d p"
proof (induction ps)
  case Nil
  then show ?case by simp
next
  case (Cons p ps)
  show ?case
  proof (cases "ps = []")
    case True
    then show ?thesis by simp
  next
    case False
    with Cons.IH obtain q where "q \<in> set ps" "min_of d ps = d q" by blast
    then show ?thesis using False by (auto simp: min_of_Cons min_def)
  qed
qed

lemma min_of_le: "p \<in> set ps \<Longrightarrow> min_of d ps \<le> d p"
  by (induction ps) (auto simp: min_of_Cons)

lemma first_at_most_less:
  "\<exists>p \<in> set ps. d p \<le> b \<Longrightarrow> first_at_most d ps b < length ps"
  by (induction ps) auto

lemma first_at_most_hit:
  "\<exists>p \<in> set ps. d p \<le> b \<Longrightarrow> d (ps ! first_at_most d ps b) \<le> b"
  by (induction ps) auto

lemma first_at_most_before:
  "j < first_at_most d ps b \<Longrightarrow> j < length ps \<Longrightarrow> b < d (ps ! j)"
proof (induction ps arbitrary: j)
  case Nil
  then show ?case by simp
next
  case (Cons p ps)
  then show ?case by (cases j) (auto split: if_splits)
qed

text \<open>
  \<open>first_minimum\<close> is what its name says: an index of the sequence, no element has a
  smaller distance than the one it names, and every earlier element has a strictly
  larger one.
\<close>

lemma first_minimum_less: "ps \<noteq> [] \<Longrightarrow> first_minimum d ps < length ps"
  unfolding first_minimum_def
  using min_of_attained[of ps d] by (intro first_at_most_less) auto

lemma first_minimum_least:
  assumes "ps \<noteq> []" "j < length ps"
  shows "d (ps ! first_minimum d ps) \<le> d (ps ! j)"
proof -
  have "\<exists>p \<in> set ps. d p \<le> min_of d ps"
    using min_of_attained[OF assms(1), of d] by auto
  then have "d (ps ! first_minimum d ps) \<le> min_of d ps"
    unfolding first_minimum_def by (rule first_at_most_hit)
  also have "\<dots> \<le> d (ps ! j)"
    using assms(2) by (intro min_of_le) simp
  finally show ?thesis .
qed

lemma first_minimum_first:
  assumes "j < first_minimum d ps" "j < length ps"
  shows "d (ps ! first_minimum d ps) < d (ps ! j)"
proof -
  have ne: "ps \<noteq> []" using assms(2) by auto
  have "\<exists>p \<in> set ps. d p \<le> min_of d ps"
    using min_of_attained[OF ne, of d] by auto
  then have "d (ps ! first_minimum d ps) \<le> min_of d ps"
    unfolding first_minimum_def by (rule first_at_most_hit)
  also have "\<dots> < d (ps ! j)"
    using assms unfolding first_minimum_def by (rule first_at_most_before)
  finally show ?thesis .
qed

text \<open>
  \<open>first_below\<close> likewise: when some element has a distance below the bound, it is the
  index of the first such element.
\<close>

lemma first_below_less:
  "\<exists>p \<in> set ps. d p < b \<Longrightarrow> first_below d ps b < length ps"
  by (induction ps) auto

lemma first_below_hit:
  "\<exists>p \<in> set ps. d p < b \<Longrightarrow> d (ps ! first_below d ps b) < b"
  by (induction ps) auto

lemma first_below_before:
  "j < first_below d ps b \<Longrightarrow> j < length ps \<Longrightarrow> \<not> d (ps ! j) < b"
proof (induction ps arbitrary: j)
  case Nil
  then show ?case by simp
next
  case (Cons p ps)
  then show ?case by (cases j) (auto split: if_splits)
qed

text \<open>The loop, when some remaining sample triggers the early return.\<close>

lemma ref_s_loop_near:
  "\<exists>p \<in> set ps. ref_s_distance A r p < kDistanceEpsilon \<Longrightarrow>
   ref_s_loop A ps r i index sh = i + first_below (ref_s_distance A r) ps kDistanceEpsilon"
proof (induction ps arbitrary: i index sh)
  case Nil
  then show ?case by simp
next
  case (Cons p ps)
  show ?case
  proof (cases "ref_s_distance A r p < kDistanceEpsilon")
    case True
    then show ?thesis by simp
  next
    case False
    then have ex: "\<exists>q \<in> set ps. ref_s_distance A r q < kDistanceEpsilon"
      using Cons.prems by auto
    show ?thesis using False by (simp add: Let_def Cons.IH[OF ex])
  qed
qed

text \<open>The loop, when no remaining sample does.\<close>

lemma ref_s_loop_far:
  "\<forall>p \<in> set ps. \<not> ref_s_distance A r p < kDistanceEpsilon \<Longrightarrow>
   ref_s_loop A ps r i index sh =
     (if ps \<noteq> [] \<and> min_of (ref_s_distance A r) ps < sh
      then i + first_at_most (ref_s_distance A r) ps (min_of (ref_s_distance A r) ps)
      else index)"
proof (induction ps arbitrary: i index sh)
  case Nil
  then show ?case by simp
next
  case (Cons p ps)
  have far: "\<not> ref_s_distance A r p < kDistanceEpsilon" using Cons.prems by simp
  have IH: "\<And>i index sh. ref_s_loop A ps r i index sh =
     (if ps \<noteq> [] \<and> min_of (ref_s_distance A r) ps < sh
      then i + first_at_most (ref_s_distance A r) ps (min_of (ref_s_distance A r) ps)
      else index)"
    using Cons by simp
  show ?case
    using far by (auto simp: Let_def IH min_of_Cons min_def)
qed

lemma ref_s_loop_index:
  assumes "ps \<noteq> []" "\<forall>p \<in> set ps. ref_s_distance A r p < double_max"
  shows "ref_s_loop A ps r 0 0 double_max =
           (if \<exists>p \<in> set ps. ref_s_distance A r p < kDistanceEpsilon
            then first_below (ref_s_distance A r) ps kDistanceEpsilon
            else first_minimum (ref_s_distance A r) ps)"
proof (cases "\<exists>p \<in> set ps. ref_s_distance A r p < kDistanceEpsilon")
  case True
  then show ?thesis by (simp add: ref_s_loop_near)
next
  case False
  have "min_of (ref_s_distance A r) ps < double_max"
    using min_of_attained[OF assms(1), of "ref_s_distance A r"] assms(2) by auto
  moreover have "\<forall>p \<in> set ps. \<not> ref_s_distance A r p < kDistanceEpsilon"
    using False by simp
  ultimately show ?thesis
    using False assms(1) by (simp add: ref_s_loop_far first_minimum_def)
qed

lemma ref_s_loop_index_less:
  assumes "ps \<noteq> []"
  shows "(if \<exists>p \<in> set ps. d p < b then first_below d ps b else first_minimum d ps)
           < length ps"
  using assms by (simp add: first_below_less first_minimum_less)

text \<open>
  On the two samples of \<open>early_example\<close> the loop returns at the first sample, whatever
  the arithmetic, provided the query is a \<open>double\<close>, so that subtracting zero from it
  gives it back.
\<close>

lemma early_example_index:
  assumes "rnd A (1 / 2048) = 1 / 2048"
  shows "get_path_point_with_ref_s A early_example (1 / 2048) = Inr (cart 0 0)"
  using assms
  by (simp add: get_path_point_with_ref_s_def early_example_def fren_def
      ref_s_distance_def double_sub_def kDistanceEpsilon_def PathPointAt_def)

text \<open>
  C2. The claim: \<open>get_path_point_with_ref_s\<close> returns the Cartesian point at the index
  whose Frenet \<open>s\<close> is closest to \<open>ref_s\<close> (the first such index), the early return
  giving the same index as the full scan. It fails on two samples with Frenet \<open>s\<close> of
  \<open>0\<close> and \<open>1/2048\<close> queried at \<open>1/2048\<close>: the first sample is already less than
  \<open>kDistanceEpsilon\<close> away, so the loop returns the point at index \<open>0\<close>, while the
  closest index is \<open>1\<close>, whose sample matches the query exactly and whose point differs.
\<close>

theorem early_return_not_closest:
  "get_path_point_with_ref_s exact_arith early_example (1 / 2048) = Inr (cart 0 0) \<and>
   closest_index (frenet_path early_example) (1 / 2048) = 1 \<and>
   PathPointAt (discretized_path early_example) 1 = Inr (cart (1 / 2048) 0) \<and>
   cart 0 0 \<noteq> cart (1 / 2048) 0"
  using early_example_index[of exact_arith]
  by (simp add: exact_arith_def early_example_def fren_def PathPointAt_def closest_index_def
      first_minimum_def cart_def MakePathPoint_def)

text \<open>
  C2, as amended. On a container with a reference line bound whose two stored sequences
  have the same, non-zero length (fewer than \<open>2 ^ 32\<close> samples), let the distance of a
  sample be what line 100 computes, the absolute value of the \<open>double\<close> difference of
  \<open>ref_s\<close> and the sample's Frenet \<open>s\<close>, and let every distance be below the largest
  \<open>double\<close>. Then \<open>get_path_point_with_ref_s\<close> returns the Cartesian point at the first
  index whose distance is less than \<open>kDistanceEpsilon\<close> when there is such an index, and
  otherwise at the first index whose distance is the least. The example of the
  specification, Frenet \<open>s\<close> values \<open>0, 0.5, 1.2\<close> queried at \<open>0.5005\<close>, is the instance
  that follows the statement.
\<close>

theorem get_path_point_with_ref_s_index:
  assumes "reference_line this \<noteq> None"
    and "length (discretized_path this) = length (frenet_path this)"
    and "frenet_path this \<noteq> []"
    and "length (frenet_path this) < 2 ^ 32"
    and "\<forall>p \<in> set (frenet_path this). ref_s_distance A ref_s p < double_max"
  shows "get_path_point_with_ref_s A this ref_s =
           Inr (discretized_path this !
                  (if \<exists>p \<in> set (frenet_path this). ref_s_distance A ref_s p < kDistanceEpsilon
                   then first_below (ref_s_distance A ref_s) (frenet_path this) kDistanceEpsilon
                   else first_minimum (ref_s_distance A ref_s) (frenet_path this)))"
  using assms(1,2) ref_s_loop_index[OF assms(3,5)]
    ref_s_loop_index_less[OF assms(3), of "ref_s_distance A ref_s" kDistanceEpsilon]
  by (simp add: get_path_point_with_ref_s_def PathPointAt_def)

theorem get_path_point_with_ref_s_index_witness:
  "reference_line spec_example \<noteq> None \<and>
   length (discretized_path spec_example) = length (frenet_path spec_example) \<and>
   frenet_path spec_example \<noteq> [] \<and>
   length (frenet_path spec_example) < 2 ^ 32 \<and>
   first_below (ref_s_distance exact_arith literal_0_5005) (frenet_path spec_example)
     kDistanceEpsilon = 1 \<and>
   get_path_point_with_ref_s exact_arith spec_example literal_0_5005 =
     Inr (discretized_path spec_example ! 1) \<and>
   discretized_path spec_example ! 1 = cart (1 / 2) 0"
  using get_path_point_with_ref_s_index[of spec_example exact_arith literal_0_5005]
  by (simp add: spec_example_def fren_def kDistanceEpsilon_def double_max_def
      ref_s_distance_def double_sub_def exact_arith_def literal_0_5005_def literal_1_2_def)

subsection \<open>The two properties above where the machine rounds\<close>

text \<open>
  Positions \<open>(0, 0)\<close>, \<open>(0.1, 0)\<close> and \<open>(0.1, 0.2)\<close>: under an arithmetic that computes
  the differences and distances involved without error and rounds the sum of \<open>0.1\<close> and
  \<open>0.2\<close> as binary64 does, the last arc length is the rounded sum, not the exact one.
\<close>

lemma frenet_rounding_converted:
  assumes "rnd A 0 = 0" "rnd A literal_0_1 = literal_0_1"
    and "rnd A (- literal_0_1) = - literal_0_1" "rnd A (- literal_0_2) = - literal_0_2"
    and "hypot A (- literal_0_1) 0 = literal_0_1" "hypot A 0 (- literal_0_2) = literal_0_2"
    and "rnd A (literal_0_1 + literal_0_2) = sum_0_1_0_2"
  shows "FrenetToCartesian A flat_transformation bound_data frenet_rounding [] =
           Inr (True, [cart 0 0, (cart literal_0_1 0)\<lparr>pp_s := literal_0_1\<rparr>,
                       (cart literal_0_1 literal_0_2)\<lparr>pp_s := sum_0_1_0_2\<rparr>])"
proof -
  have range: "0 \<le> literal_0_1" "literal_0_1 \<le> 10"
    by (simp_all add: literal_0_1_def)
  show ?thesis
    using assms range
    by (simp add: FrenetToCartesian_def bound_data_def frenet_rounding_def fren_def cart_def
        x_axis_line_def flat_transformation_def MakePathPoint_def Length_def vec_minus_def
        double_add_def double_sub_def)
qed

lemma sum_0_1_0_2_rounded: "sum_0_1_0_2 \<noteq> literal_0_1 + literal_0_2"
  by (simp add: sum_0_1_0_2_def literal_0_1_def literal_0_2_def)

text \<open>
  Frenet \<open>s\<close> values \<open>2^-65\<close> and \<open>kDistanceEpsilon\<close> queried at \<open>kDistanceEpsilon\<close>: the
  exact distance to the first sample is below \<open>kDistanceEpsilon\<close>, the computed one is
  not once the difference has been rounded, and the loop goes on to the second sample.
\<close>

lemma rounding_example_index:
  assumes "rnd A 0 = 0" "rnd A (kDistanceEpsilon - 1 / 2 ^ 65) = kDistanceEpsilon"
  shows "get_path_point_with_ref_s A rounding_example kDistanceEpsilon = Inr (cart 1 0)"
proof -
  have pos: "0 < kDistanceEpsilon" by (simp add: kDistanceEpsilon_def)
  show ?thesis
    using assms pos
    by (simp add: get_path_point_with_ref_s_def rounding_example_def fren_def
        ref_s_distance_def double_sub_def PathPointAt_def)
qed

end
